theory Spec2Isabelle
  imports Main
begin

section \<open>check\_apt: the data of the plugin\<close>

text \<open>
  The plugin \<^verbatim>\<open>plugins/check_apt.c\<close> runs \<^verbatim>\<open>apt-get\<close> once or twice, reads
  what the child wrote, and folds an exit state out of it. The model follows the C text
  function by function. What the C file takes from headers that are not among the sources
  (\<^verbatim>\<open>common.h\<close>, \<^verbatim>\<open>utils.h\<close>, \<^verbatim>\<open>runcmd.h\<close>) is introduced
  below, each piece marked as such.

  A plugin state is a C \<^verbatim>\<open>int\<close>; the model keeps it an integer, and the plugin
  does no arithmetic on it. The loop index \<^verbatim>\<open>i\<close> and the counter \<^verbatim>\<open>pc\<close> are
  C \<^verbatim>\<open>int\<close>s that are incremented; they are integers of the model that wrap around
  at 32 bits, as written out in \<open>wrap32\<close> below.
\<close>

text \<open>
  Modelled from the spec: the four state constants of \<^verbatim>\<open>common.h\<close>, which is not
  among the sources. The spec numbers them OK(0), WARNING(1), CRITICAL(2), UNKNOWN(3).
\<close>

definition STATE_OK :: int where
  "STATE_OK = 0"

definition STATE_WARNING :: int where
  "STATE_WARNING = 1"

definition STATE_CRITICAL :: int where
  "STATE_CRITICAL = 2"

definition STATE_UNKNOWN :: int where
  "STATE_UNKNOWN = 3"

text \<open>
  Modelled from the spec: \<^verbatim>\<open>max_state\<close> of \<^verbatim>\<open>utils.c\<close>, which is not among the
  sources; only its calls in \<^verbatim>\<open>check_apt.c\<close> are. The spec's contract for it is
  "the greater of the two under the total order OK < WARNING < CRITICAL < UNKNOWN",
  that is, by the numbering above, the greater of the two integers.
\<close>

definition max_state :: "int \<Rightarrow> int \<Rightarrow> int" where
  "max_state a b = (if a < b then b else a)"

text \<open>The three fixed command lines (the apostrophe is character \<open>0x27\<close>).\<close>

definition APTGET_UPGRADE :: string where
  "APTGET_UPGRADE =
     ''/usr/bin/apt-get -o '' @ [CHR 0x27] @ ''Debug::NoLocking=true'' @ [CHR 0x27]
       @ '' -s -qq upgrade''"

definition APTGET_DISTUPGRADE :: string where
  "APTGET_DISTUPGRADE =
     ''/usr/bin/apt-get -o '' @ [CHR 0x27] @ ''Debug::NoLocking=true'' @ [CHR 0x27]
       @ '' -s -qq dist-upgrade''"

definition APTGET_UPDATE :: string where
  "APTGET_UPDATE = ''/usr/bin/apt-get -q update''"

text \<open>
  \<^verbatim>\<open>struct output\<close> (declared in \<^verbatim>\<open>runcmd.h\<close>): of its fields the plugin reads
  \<^verbatim>\<open>buflen\<close>, the number of bytes captured, \<^verbatim>\<open>line\<close>, the array of lines, and
  \<^verbatim>\<open>lines\<close>, the length of that array. The array is a list here and \<^verbatim>\<open>lines\<close>
  is its length. A line is a C string, modelled by the characters before its terminating
  NUL. \<^verbatim>\<open>buflen\<close> and \<^verbatim>\<open>lines\<close> are unsigned (\<^verbatim>\<open>size_t\<close>), hence natural
  numbers; a capture that fits the address space has fewer than \<open>2 ^ 64 - 2 ^ 31\<close> lines,
  the least value a negative \<^verbatim>\<open>int\<close> converts to. (The record is named
  \<open>output_s\<close> because \<open>output\<close> is reserved.)
\<close>

record output_s =
  buflen :: nat
  line :: "string list"

text \<open>
  What one call of \<^verbatim>\<open>np_runcmd\<close> hands back: its return value and the two
  captures it fills in.
\<close>

record chld =
  status :: int
  chld_out :: output_s
  chld_err :: output_s

text \<open>
  What the plugin writes. \<open>Echo l\<close> is \<^verbatim>\<open>printf("%s\n", l)\<close>. \<open>Report\<close> is the
  final \<^verbatim>\<open>printf\<close> of \<^verbatim>\<open>main\<close> with its six arguments (the state is kept as the
  integer handed to \<^verbatim>\<open>state_text\<close>). \<open>Exited c\<close> and \<open>Exited_hint c h\<close> are
  the two "exited with non-zero status" messages, and \<open>Stderr_detected\<close> is the pair of
  \<^verbatim>\<open>fprintf\<close> calls on lines 72 and 73.
\<close>

datatype message =
  Echo string
  | Report int int string string string string
  | Exited string
  | Exited_hint string string
  | Stderr_detected

text \<open>
  The state a run threads through its calls: the five file-scope variables of the plugin,
  the command lines handed to \<^verbatim>\<open>np_runcmd\<close> so far (oldest first), and what has
  been written to standard output and to standard error (oldest first).
\<close>

record world =
  verbose :: int
  do_update :: int
  dist_upgrade :: int
  stderr_warning :: int
  exec_warning :: int
  invoked :: "string list"
  stdout_ch :: "message list"
  stderr_ch :: "message list"

text \<open>
  The variables as \<^verbatim>\<open>process_arguments\<close> leaves them: the two warning flags keep
  their initialiser \<open>0\<close>, nothing has been run or written.
\<close>

definition init_world :: "int \<Rightarrow> int \<Rightarrow> int \<Rightarrow> world" where
  "init_world v u d =
     \<lparr>verbose = v, do_update = u, dist_upgrade = d, stderr_warning = 0, exec_warning = 0,
      invoked = [], stdout_ch = [], stderr_ch = []\<rparr>"

section \<open>The functions of the plugin\<close>

text \<open>
  \<^verbatim>\<open>np_runcmd\<close> is the outside world. A \<open>runner\<close> says what the \<open>k\<close>-th call of
  the run (counting from \<open>0\<close>) returns for the command line it is given; the call is
  recorded in \<open>invoked\<close>. The model covers the runs in which every call returns, that is,
  in which the alarm armed by \<^verbatim>\<open>main\<close> does not fire.
\<close>

type_synonym runner = "nat \<Rightarrow> string \<Rightarrow> chld"

definition np_runcmd :: "runner \<Rightarrow> string \<Rightarrow> world \<Rightarrow> chld \<times> world" where
  "np_runcmd env cmd w = (env (length (invoked w)) cmd, w\<lparr>invoked := invoked w @ [cmd]\<rparr>)"

text \<open>
  \<^verbatim>\<open>strncmp\<close> of the C library on two C strings: the first \<open>n\<close> characters are
  compared, a string that ends early is smaller, and the result is the difference of the
  first two characters that differ.
\<close>

fun strncmp :: "string \<Rightarrow> string \<Rightarrow> nat \<Rightarrow> int" where
  "strncmp s t 0 = 0"
| "strncmp [] [] (Suc n) = 0"
| "strncmp [] (b # t) (Suc n) = - of_char b"
| "strncmp (a # s) [] (Suc n) = of_char a"
| "strncmp (a # s) (b # t) (Suc n) =
     (if a = b then strncmp s t n else of_char a - of_char b)"

text \<open>
  A C \<^verbatim>\<open>int\<close> has 32 bits. \<open>wrap32 x\<close> is the value such a variable holds after an
  operation whose mathematical result is \<open>x\<close>: the result is reduced to the range from
  \<open>- 2 ^ 31\<close> to \<open>2 ^ 31 - 1\<close>, as two's complement arithmetic does.
\<close>

definition wrap32 :: "int \<Rightarrow> int" where
  "wrap32 x = (x + 2147483648) mod 4294967296 - 2147483648"

text \<open>
  The shape shared by the four loops of the plugin,
  \<^verbatim>\<open>for(i = 0; i < o.lines; i++) { ... o.line[i] ... }\<close>, from the current value of the
  \<^verbatim>\<open>int\<close> index \<open>i\<close>. The comparison is unsigned: a negative \<open>i\<close> is converted to a
  number above every line count, so the loop goes on while \<open>i\<close> is not negative and below
  the number of lines, and \<^verbatim>\<open>i++\<close> wraps.
\<close>

function for_lines :: "(string \<Rightarrow> 's \<Rightarrow> 's) \<Rightarrow> string list \<Rightarrow> int \<Rightarrow> 's \<Rightarrow> 's" where
  "for_lines body ls i s =
     (if 0 \<le> i \<and> nat i < length ls
      then for_lines body ls (wrap32 (i + 1)) (body (ls ! nat i) s)
      else s)"
  by pat_completeness auto
termination
proof (relation "measure (\<lambda>(body, ls, i, s).
         nat (if 2147483648 \<le> i then 2147483649
              else if 0 \<le> i then 2147483648 - i else 0))")
  show "wf (measure (\<lambda>(body :: string \<Rightarrow> 's \<Rightarrow> 's, ls :: string list, i :: int, s :: 's).
         nat (if 2147483648 \<le> i then 2147483649
              else if 0 \<le> i then 2147483648 - i else 0)))"
    by simp
next
  fix body :: "string \<Rightarrow> 's \<Rightarrow> 's" and ls :: "string list" and i :: int and s :: 's
  assume "0 \<le> i \<and> nat i < length ls"
  then have pos: "0 \<le> i"
    by simp
  have range: "- 2147483648 \<le> wrap32 (i + 1)" "wrap32 (i + 1) < 2147483648"
    by (simp_all add: wrap32_def)
  have small: "wrap32 (i + 1) = i + 1" if "i < 2147483647"
    using pos that by (simp add: wrap32_def)
  have top: "wrap32 (i + 1) = - 2147483648" if "i = 2147483647"
    using that by (simp add: wrap32_def)
  consider "2147483648 \<le> i" | "i < 2147483647" | "i = 2147483647"
    by linarith
  then show "((body, ls, wrap32 (i + 1), body (ls ! nat i) s), (body, ls, i, s))
       \<in> measure (\<lambda>(body, ls, i, s).
            nat (if 2147483648 \<le> i then 2147483649
                 else if 0 \<le> i then 2147483648 - i else 0))"
  proof cases
    case 1
    with range show ?thesis by simp arith
  next
    case 2
    with pos small show ?thesis by simp
  next
    case 3
    with top show ?thesis by simp
  qed
qed

definition printf_line :: "string \<Rightarrow> world \<Rightarrow> world" where
  "printf_line l w = w\<lparr>stdout_ch := stdout_ch w @ [Echo l]\<rparr>"

text \<open>The loop \<^verbatim>\<open>for(i = 0; i < o.lines; i++) printf("%s\n", o.line[i]);\<close>\<close>

definition print_lines :: "string list \<Rightarrow> world \<Rightarrow> world" where
  "print_lines ls w = for_lines printf_line ls 0 w"

text \<open>
  The loop of \<^verbatim>\<open>run_upgrade\<close> over the lines of standard output, on the pair of the
  counter \<^verbatim>\<open>pc\<close> and the world: \<open>inst_body\<close> is what it does with one line
  (\<^verbatim>\<open>pc++\<close> wraps like the index), \<open>inst_loop\<close> is the loop from \<^verbatim>\<open>i = 0\<close>.
\<close>

definition inst_body :: "string \<Rightarrow> int \<times> world \<Rightarrow> int \<times> world" where
  "inst_body l a =
     (if strncmp l ''Inst'' 4 = 0
      then (wrap32 (fst a + 1), if verbose (snd a) \<noteq> 0 then printf_line l (snd a) else snd a)
      else a)"

definition inst_loop :: "string list \<Rightarrow> int \<times> world \<Rightarrow> int \<times> world" where
  "inst_loop ls a = for_lines inst_body ls 0 a"

text \<open>
  The block shared by both functions: "If we get anything on stderr, at least set
  warning". It works on the pair of the local \<^verbatim>\<open>result\<close> and the world.
\<close>

definition stderr_check :: "output_s \<Rightarrow> int \<times> world \<Rightarrow> int \<times> world" where
  "stderr_check e a =
     (if buflen e \<noteq> 0
      then (max_state (fst a) STATE_WARNING,
            (if verbose (snd a) \<noteq> 0 then print_lines (line e) else id)
              ((snd a)\<lparr>stderr_warning := 1\<rparr>))
      else a)"

text \<open>
  \<^verbatim>\<open>run_upgrade\<close>: the value returned and the count stored through \<^verbatim>\<open>pkgcount\<close>,
  with the world after the call.
\<close>

definition run_upgrade :: "runner \<Rightarrow> world \<Rightarrow> (int \<times> int) \<times> world" where
  "run_upgrade env w =
     (let (c, w1) = np_runcmd env
                      (if dist_upgrade w = 0 then APTGET_UPGRADE else APTGET_DISTUPGRADE) w;
          a2 = (if status c \<noteq> 0
                then (STATE_UNKNOWN,
                      w1\<lparr>exec_warning := 1,
                         stderr_ch := stderr_ch w1 @
                           [Exited_hint APTGET_UPGRADE ''Run again with -v for more info.'']\<rparr>)
                else (status c, w1));
          (pc, w3) = inst_loop (line (chld_out c)) (0, snd a2);
          a4 = stderr_check (chld_err c) (fst a2, w3)
      in ((fst a4, pc), snd a4))"

text \<open>\<^verbatim>\<open>run_update\<close>: the value returned, with the world after the call.\<close>

definition run_update :: "runner \<Rightarrow> world \<Rightarrow> int \<times> world" where
  "run_update env w =
     (let (c, w1) = np_runcmd env APTGET_UPDATE w;
          a2 = (if status c \<noteq> 0
                then (STATE_UNKNOWN,
                      w1\<lparr>exec_warning := 1,
                         stderr_ch := stderr_ch w1 @ [Exited APTGET_UPDATE]\<rparr>)
                else (status c, w1));
          w3 = (if verbose (snd a2) \<noteq> 0 then print_lines (line (chld_out c)) (snd a2)
                else snd a2)
      in stderr_check (chld_err c) (fst a2, w3))"

text \<open>
  \<^verbatim>\<open>main\<close> after the arguments are parsed and the alarm is armed. The C function
  returns \<^verbatim>\<open>result\<close>; the model returns the local \<^verbatim>\<open>packages_available\<close>
  beside it, and the world at the return.
\<close>

definition main :: "runner \<Rightarrow> world \<Rightarrow> (int \<times> int) \<times> world" where
  "main env w =
     (let a1 = (if do_update w \<noteq> 0 then run_update env w else (STATE_UNKNOWN, w));
          ((r, packages_available), w2) = run_upgrade env (snd a1);
          result = max_state (fst a1) r;
          w3 = (if stderr_warning w2 \<noteq> 0
                then w2\<lparr>stderr_ch := stderr_ch w2 @ [Stderr_detected]\<rparr> else w2);
          result = (if packages_available > 0 then max_state result STATE_WARNING
                    else max_state result STATE_OK);
          w4 = w3\<lparr>stdout_ch := stdout_ch w3 @
                 [Report result packages_available
                    (if dist_upgrade w3 \<noteq> 0 then ''dist-upgrade'' else ''upgrade'')
                    (if stderr_warning w3 \<noteq> 0 then '' (warnings detected)'' else [])
                    (if stderr_warning w3 \<noteq> 0 \<and> exec_warning w3 \<noteq> 0 then '','' else [])
                    (if exec_warning w3 \<noteq> 0 then '' (errors detected)'' else [])]\<rparr>
      in ((result, packages_available), w4))"

section \<open>Vocabulary of the statements\<close>

text \<open>
  The child that \<^verbatim>\<open>run_update\<close>, respectively \<^verbatim>\<open>run_upgrade\<close>, gets from
  \<^verbatim>\<open>np_runcmd\<close> when it is called in world \<open>w\<close>.
\<close>

definition refresh_chld :: "runner \<Rightarrow> world \<Rightarrow> chld" where
  "refresh_chld env w = env (length (invoked w)) APTGET_UPDATE"

definition upgrade_cmd :: "world \<Rightarrow> string" where
  "upgrade_cmd w = (if dist_upgrade w = 0 then APTGET_UPGRADE else APTGET_DISTUPGRADE)"

definition upgrade_chld :: "runner \<Rightarrow> world \<Rightarrow> chld" where
  "upgrade_chld env w = env (length (invoked w)) (upgrade_cmd w)"

text \<open>
  The same two children in a run of \<^verbatim>\<open>main\<close> from \<open>init_world v u d\<close>: the refresh,
  if there is one, is call \<open>0\<close>, and the upgrade simulation is the call after it.
\<close>

definition refresh_of :: "runner \<Rightarrow> chld" where
  "refresh_of env = env 0 APTGET_UPDATE"

definition upgrade_of :: "runner \<Rightarrow> int \<Rightarrow> int \<Rightarrow> chld" where
  "upgrade_of env u d =
     env (if u \<noteq> 0 then 1 else 0) (if d = 0 then APTGET_UPGRADE else APTGET_DISTUPGRADE)"

text \<open>A marker line, in the words of the spec: its first four characters are \<open>Inst\<close>.\<close>

definition marked :: "string \<Rightarrow> bool" where
  "marked l = (take 4 l = ''Inst'')"

text \<open>
  The lines that a loop with an \<^verbatim>\<open>int\<close> index reaches: the first \<open>2 ^ 31\<close>, that is
  all lines of a capture that has fewer than \<open>2 ^ 31\<close> of them.
\<close>

definition visited :: "string list \<Rightarrow> string list" where
  "visited ls = take 2147483648 ls"

text \<open>
  The state that both \<^verbatim>\<open>run_update\<close> and \<^verbatim>\<open>run_upgrade\<close> compute from their
  child, what they echo at verbosity \<open>v\<close>, and the closing report of \<^verbatim>\<open>main\<close>.
\<close>

definition chld_state :: "chld \<Rightarrow> int" where
  "chld_state c =
     (if buflen (chld_err c) \<noteq> 0
      then max_state (if status c \<noteq> 0 then STATE_UNKNOWN else status c) STATE_WARNING
      else if status c \<noteq> 0 then STATE_UNKNOWN else status c)"

definition echoes :: "int \<Rightarrow> string list \<Rightarrow> message list" where
  "echoes v ls = (if v \<noteq> 0 then map Echo ls else [])"

definition stderr_echoes :: "int \<Rightarrow> output_s \<Rightarrow> message list" where
  "stderr_echoes v e = (if buflen e \<noteq> 0 then echoes v (visited (line e)) else [])"

definition report :: "int \<Rightarrow> int \<Rightarrow> int \<Rightarrow> int \<Rightarrow> int \<Rightarrow> message" where
  "report r n d sw ew =
     Report r n (if d \<noteq> 0 then ''dist-upgrade'' else ''upgrade'')
       (if sw \<noteq> 0 then '' (warnings detected)'' else [])
       (if sw \<noteq> 0 \<and> ew \<noteq> 0 then '','' else [])
       (if ew \<noteq> 0 then '' (errors detected)'' else [])"

subsection \<open>Sample children\<close>

text \<open>
  Concrete captures, used to run the model: a child that writes nothing and exits \<open>0\<close>,
  the simulated upgrade of the spec's example (36 bytes in four lines), a child that
  fails with status \<open>1\<close>, a child whose standard error is a single newline, a refresh
  that reports one index hit, and a simulated upgrade of \<open>2 ^ 31 + 5\<close> marker lines of
  seven bytes each.
\<close>

definition silent :: output_s where
  "silent = \<lparr>buflen = 0, line = []\<rparr>"

definition clean_chld :: chld where
  "clean_chld = \<lparr>status = 0, chld_out = silent, chld_err = silent\<rparr>"

definition two_updates_chld :: chld where
  "two_updates_chld =
     \<lparr>status = 0,
      chld_out = \<lparr>buflen = 36, line = [''Inst foo 1.0'', ''Conf foo'', ''Inst bar 2.0'', []]\<rparr>,
      chld_err = silent\<rparr>"

definition failed_chld :: chld where
  "failed_chld = \<lparr>status = 1, chld_out = silent, chld_err = silent\<rparr>"

definition newline_chld :: chld where
  "newline_chld = \<lparr>status = 0, chld_out = silent, chld_err = \<lparr>buflen = 1, line = [[]]\<rparr>\<rparr>"

definition hit_chld :: chld where
  "hit_chld =
     \<lparr>status = 0, chld_out = \<lparr>buflen = 11, line = [''Hit stable'']\<rparr>, chld_err = silent\<rparr>"

definition flood_chld :: chld where
  "flood_chld =
     \<lparr>status = 0,
      chld_out = \<lparr>buflen = 15032385571, line = replicate 2147483653 ''Inst x''\<rparr>,
      chld_err = silent\<rparr>"

text \<open>
  A runner that answers the refresh with \<open>r\<close> and either upgrade simulation with \<open>g\<close>.
\<close>

definition answering :: "chld \<Rightarrow> chld \<Rightarrow> runner" where
  "answering r g = (\<lambda>k cmd. if cmd = APTGET_UPDATE then r else g)"

section \<open>The functions in closed form\<close>

lemmas state_defs = STATE_OK_def STATE_WARNING_def STATE_CRITICAL_def STATE_UNKNOWN_def

lemma of_char_int_eq_iff: "((of_char a :: int) = of_char b) = (a = b)"
  by simp

lemma of_char_int_zero: "((of_char b :: int) = 0) = (b = CHR 0x00)"
  using of_char_int_eq_iff [of b "CHR 0x00"] by simp

text \<open>
  Against a pattern of at least \<open>n\<close> characters, none of them NUL, \<^verbatim>\<open>strncmp\<close>
  returns \<open>0\<close> exactly when the first \<open>n\<close> characters agree.
\<close>

lemma strncmp_zero_iff:
  "n \<le> length t \<Longrightarrow> CHR 0x00 \<notin> set (take n t) \<Longrightarrow>
     (strncmp s t n = 0) = (take n s = take n t)"
proof (induction s t n rule: strncmp.induct)
  case (3 b t n)
  then show ?case by (auto simp add: of_char_int_zero)
qed simp_all

lemma strncmp_Inst: "(strncmp l ''Inst'' 4 = 0) = marked l"
  using strncmp_zero_iff [of 4 "''Inst''" l] by (simp add: marked_def)

lemma marked_eq: "marked = (\<lambda>l. take 4 l = ''Inst'')"
  by (simp add: fun_eq_iff marked_def)

text \<open>Arithmetic of the 32-bit counters.\<close>

lemma wrap32_id: "- 2147483648 \<le> x \<Longrightarrow> x < 2147483648 \<Longrightarrow> wrap32 x = x"
  by (simp add: wrap32_def)

lemma wrap32_add_left: "wrap32 (wrap32 x + y) = wrap32 (x + y)"
proof -
  have eq: "wrap32 x + y + 2147483648 = (x + 2147483648) mod 4294967296 + y"
    by (simp add: wrap32_def)
  have "(wrap32 x + y + 2147483648) mod 4294967296
               = ((x + 2147483648) mod 4294967296 + y) mod 4294967296"
    by (simp only: eq)
  also have "\<dots> = (x + 2147483648 + y) mod 4294967296"
    by (rule mod_add_left_eq)
  also have "x + 2147483648 + y = x + y + 2147483648"
    by simp
  finally show ?thesis
    by (simp only: wrap32_def)
qed

text \<open>
  An index loop reaches the first \<open>2 ^ 31\<close> lines of a capture, in order: after line
  \<open>2 ^ 31 - 1\<close> the index wraps to \<open>- 2 ^ 31\<close> and the loop ends.
\<close>

declare for_lines.simps [simp del]

lemma for_lines_from:
  "0 \<le> i \<Longrightarrow> i < 2147483648 \<Longrightarrow>
     for_lines body ls i s = fold body (drop (nat i) (visited ls)) s"
proof (induction body ls i s rule: for_lines.induct)
  case (1 body ls i s)
  show ?case
  proof (cases "nat i < length ls")
    case False
    then have "drop (nat i) (visited ls) = []"
      by (simp add: visited_def)
    with False show ?thesis
      by (simp add: for_lines.simps [of body ls i s])
  next
    case True
    with 1(2,3) have inside: "nat i < length (visited ls)"
      by (simp add: visited_def)
    have nth: "visited ls ! nat i = ls ! nat i"
      using 1(2,3) by (simp add: visited_def)
    have split: "drop (nat i) (visited ls) = ls ! nat i # drop (Suc (nat i)) (visited ls)"
      using Cons_nth_drop_Suc [OF inside] nth by simp
    have step: "for_lines body ls i s
                  = for_lines body ls (wrap32 (i + 1)) (body (ls ! nat i) s)"
      using True 1(2) by (simp add: for_lines.simps [of body ls i s])
    show ?thesis
    proof (cases "i + 1 < 2147483648")
      case True
      with 1(2) have w: "wrap32 (i + 1) = i + 1"
        by (simp add: wrap32_id)
      have n: "nat (i + 1) = Suc (nat i)"
        using 1(2) by simp
      from 1(1) \<open>nat i < length ls\<close> 1(2) True w
      have "for_lines body ls (i + 1) (body (ls ! nat i) s)
              = fold body (drop (nat (i + 1)) (visited ls)) (body (ls ! nat i) s)"
        by simp
      with step w n split show ?thesis by simp
    next
      case False
      with 1(3) have top: "i = 2147483647" by simp
      then have w: "wrap32 (i + 1) = - 2147483648"
        by (simp add: wrap32_def)
      have stop: "for_lines body ls (- 2147483648) t = t" for t
        by (simp add: for_lines.simps [of body ls "- 2147483648" t])
      have "drop (Suc (nat i)) (visited ls) = []"
        using top by (simp add: visited_def)
      with step w stop split show ?thesis by simp
    qed
  qed
qed

lemma for_lines_eq: "for_lines body ls 0 s = fold body (visited ls) s"
  using for_lines_from [of 0 body ls s] by simp

lemma visited_short: "length ls < 2147483648 \<Longrightarrow> visited ls = ls"
  by (simp add: visited_def)

lemma wrap32_count:
  assumes "length xs < 2147483648"
  shows "wrap32 (int (length (filter marked xs))) = int (length (filter marked xs))"
proof -
  have "length (filter marked xs) \<le> length xs"
    by (rule length_filter_le)
  with assms have "int (length (filter marked xs)) < 2147483648"
    by linarith
  then show ?thesis
    by (simp add: wrap32_id)
qed

lemma fold_printf_line:
  "fold printf_line xs w = w\<lparr>stdout_ch := stdout_ch w @ map Echo xs\<rparr>"
  by (induction xs arbitrary: w) (simp_all add: printf_line_def)

lemma print_lines_eq:
  "print_lines ls w = w\<lparr>stdout_ch := stdout_ch w @ map Echo (visited ls)\<rparr>"
  by (simp add: print_lines_def for_lines_eq fold_printf_line)

lemma fold_inst_body:
  "fold inst_body xs a =
     (if filter marked xs = [] then fst a
      else wrap32 (fst a + int (length (filter marked xs))),
      (snd a)\<lparr>stdout_ch := stdout_ch (snd a) @ echoes (verbose (snd a)) (filter marked xs)\<rparr>)"
proof (induction xs arbitrary: a)
  case Nil
  show ?case by (cases a) (simp add: echoes_def)
next
  case (Cons x xs)
  show ?case
  proof (cases "marked x")
    case False
    then have body: "inst_body x a = a"
      by (simp add: inst_body_def strncmp_Inst)
    from False show ?thesis
      by (simp add: body Cons.IH)
  next
    case True
    then have body: "inst_body x a =
        (wrap32 (fst a + 1), if verbose (snd a) \<noteq> 0 then printf_line x (snd a) else snd a)"
      by (simp add: inst_body_def strncmp_Inst)
    have count: "wrap32 (wrap32 (fst a + 1) + int (length (filter marked xs)))
            = wrap32 (fst a + (1 + int (length (filter marked xs))))"
      by (simp add: wrap32_add_left add.assoc)
    from True show ?thesis
      by (simp add: body Cons.IH count printf_line_def echoes_def)
  qed
qed

lemma inst_loop_eq:
  "inst_loop ls (0, w) =
     (wrap32 (int (length (filter marked (visited ls)))),
      w\<lparr>stdout_ch := stdout_ch w @ echoes (verbose w) (filter marked (visited ls))\<rparr>)"
  by (simp add: inst_loop_def for_lines_eq fold_inst_body wrap32_def)

lemma run_update_eq:
  "run_update env w =
     (let c = refresh_chld env w in
      (chld_state c,
       w\<lparr>stderr_warning := (if buflen (chld_err c) \<noteq> 0 then 1 else stderr_warning w),
         exec_warning := (if status c \<noteq> 0 then 1 else exec_warning w),
         invoked := invoked w @ [APTGET_UPDATE],
         stdout_ch := stdout_ch w @ echoes (verbose w) (visited (line (chld_out c)))
                        @ stderr_echoes (verbose w) (chld_err c),
         stderr_ch := stderr_ch w @ (if status c \<noteq> 0 then [Exited APTGET_UPDATE] else [])\<rparr>))"
  by (simp add: run_update_def np_runcmd_def stderr_check_def refresh_chld_def Let_def
      print_lines_eq echoes_def stderr_echoes_def chld_state_def)

lemma run_upgrade_eq:
  "run_upgrade env w =
     (let c = upgrade_chld env w in
      ((chld_state c, wrap32 (int (length (filter marked (visited (line (chld_out c))))))),
       w\<lparr>stderr_warning := (if buflen (chld_err c) \<noteq> 0 then 1 else stderr_warning w),
         exec_warning := (if status c \<noteq> 0 then 1 else exec_warning w),
         invoked := invoked w @ [upgrade_cmd w],
         stdout_ch := stdout_ch w
                        @ echoes (verbose w) (filter marked (visited (line (chld_out c))))
                        @ stderr_echoes (verbose w) (chld_err c),
         stderr_ch := stderr_ch w @
           (if status c \<noteq> 0
            then [Exited_hint APTGET_UPGRADE ''Run again with -v for more info.''] else [])\<rparr>))"
  by (simp add: run_upgrade_def np_runcmd_def stderr_check_def upgrade_chld_def upgrade_cmd_def
      Let_def print_lines_eq inst_loop_eq echoes_def stderr_echoes_def chld_state_def)

lemma main_init_eq:
  "main env (init_world v u d) =
     (let rc = refresh_of env; uc = upgrade_of env u d;
          n = wrap32 (int (length (filter marked (visited (line (chld_out uc))))));
          r = max_state (max_state (if u \<noteq> 0 then chld_state rc else STATE_UNKNOWN)
                (chld_state uc)) (if 0 < n then STATE_WARNING else STATE_OK);
          sw = (if (u \<noteq> 0 \<and> buflen (chld_err rc) \<noteq> 0) \<or> buflen (chld_err uc) \<noteq> 0
                then 1 else 0);
          ew = (if (u \<noteq> 0 \<and> status rc \<noteq> 0) \<or> status uc \<noteq> 0 then 1 else 0)
      in ((r, n),
          \<lparr>verbose = v, do_update = u, dist_upgrade = d, stderr_warning = sw,
           exec_warning = ew,
           invoked = (if u \<noteq> 0 then [APTGET_UPDATE] else [])
                       @ [if d = 0 then APTGET_UPGRADE else APTGET_DISTUPGRADE],
           stdout_ch =
             (if u \<noteq> 0
              then echoes v (visited (line (chld_out rc))) @ stderr_echoes v (chld_err rc)
              else [])
             @ echoes v (filter marked (visited (line (chld_out uc))))
             @ stderr_echoes v (chld_err uc)
             @ [report r n d sw ew],
           stderr_ch =
             (if u \<noteq> 0 \<and> status rc \<noteq> 0 then [Exited APTGET_UPDATE] else [])
             @ (if status uc \<noteq> 0
                then [Exited_hint APTGET_UPGRADE ''Run again with -v for more info.'']
                else [])
             @ (if sw \<noteq> 0 then [Stderr_detected] else [])\<rparr>))"
  by (cases "u = 0"; cases "d = 0")
    (simp_all add: main_def Let_def case_prod_beta run_upgrade_eq run_update_eq upgrade_of_def
      refresh_of_def upgrade_chld_def upgrade_cmd_def refresh_chld_def init_world_def report_def)

text \<open>The command lines are pairwise different, and the sample runner tells them apart.\<close>

lemma commands_differ:
  "APTGET_UPGRADE \<noteq> APTGET_UPDATE" "APTGET_DISTUPGRADE \<noteq> APTGET_UPDATE"
  "APTGET_UPGRADE \<noteq> APTGET_DISTUPGRADE"
  by (simp_all add: APTGET_UPGRADE_def APTGET_DISTUPGRADE_def APTGET_UPDATE_def)

lemma answering_simps:
  "refresh_of (answering r g) = r" "upgrade_of (answering r g) u d = g"
  "refresh_chld (answering r g) w = r" "upgrade_chld (answering r g) w = g"
  by (simp_all add: answering_def refresh_of_def upgrade_of_def refresh_chld_def
      upgrade_chld_def upgrade_cmd_def commands_differ)

lemmas sample_defs = silent_def clean_chld_def two_updates_chld_def failed_chld_def
  newline_chld_def hit_chld_def

section \<open>The state lattice\<close>

text \<open>
  C2. The combining operation returns the greater of its two arguments under
  OK(0) < WARNING(1) < CRITICAL(2) < UNKNOWN(3); it is commutative, associative and
  idempotent, it never lowers the running value, and it maps (OK, WARNING) to WARNING,
  (WARNING, UNKNOWN) to UNKNOWN and (UNKNOWN, CRITICAL) to UNKNOWN.
\<close>

theorem max_state_greater_of_two:
  "max_state a b = max a b
   \<and> STATE_OK < STATE_WARNING \<and> STATE_WARNING < STATE_CRITICAL
   \<and> STATE_CRITICAL < STATE_UNKNOWN
   \<and> max_state a b = max_state b a
   \<and> max_state (max_state a b) c = max_state a (max_state b c)
   \<and> max_state a a = a
   \<and> a \<le> max_state a b
   \<and> max_state STATE_OK STATE_WARNING = STATE_WARNING
   \<and> max_state STATE_WARNING STATE_UNKNOWN = STATE_UNKNOWN
   \<and> max_state STATE_UNKNOWN STATE_CRITICAL = STATE_UNKNOWN"
  by (simp add: max_state_def STATE_OK_def STATE_WARNING_def STATE_CRITICAL_def
      STATE_UNKNOWN_def max_def)

section \<open>A failed upgrade simulation\<close>

text \<open>
  C1. If the child of the upgrade simulation exits with a non-zero status, the state that
  \<^verbatim>\<open>main\<close> returns is UNKNOWN and \<^verbatim>\<open>exec_warning\<close> is set, whatever the child
  wrote to standard output and standard error, whatever the refresh did, and at every
  verbosity. The same holds of \<^verbatim>\<open>run_upgrade\<close> alone, from any world.
\<close>

theorem failed_upgrade_is_unknown:
  "(status (upgrade_of env u d) \<noteq> 0 \<longrightarrow>
      fst (fst (main env (init_world v u d))) = STATE_UNKNOWN
      \<and> exec_warning (snd (main env (init_world v u d))) = 1)
   \<and> (status (upgrade_chld env w) \<noteq> 0 \<longrightarrow>
      fst (fst (run_upgrade env w)) = STATE_UNKNOWN
      \<and> exec_warning (snd (run_upgrade env w)) = 1)"
  by (simp add: main_init_eq run_upgrade_eq Let_def chld_state_def max_state_def state_defs)

theorem failed_upgrade_is_unknown_witness:
  "status (upgrade_of (answering clean_chld failed_chld) 1 0) \<noteq> 0
   \<and> fst (fst (main (answering clean_chld failed_chld) (init_world 0 1 0))) = STATE_UNKNOWN
   \<and> exec_warning (snd (main (answering clean_chld failed_chld) (init_world 0 1 0))) = 1
   \<and> status (upgrade_chld (answering clean_chld failed_chld) (init_world 0 1 0)) \<noteq> 0
   \<and> fst (fst (run_upgrade (answering clean_chld failed_chld) (init_world 0 1 0)))
       = STATE_UNKNOWN
   \<and> exec_warning (snd (run_upgrade (answering clean_chld failed_chld) (init_world 0 1 0))) = 1"
  using failed_upgrade_is_unknown
    [of "answering clean_chld failed_chld" 1 0 0 "init_world 0 1 0"]
  by (simp add: answering_simps failed_chld_def)

section \<open>Available updates\<close>

text \<open>
  C3. In every run that returns, if the count of updates is greater than zero the
  returned state is at least WARNING (also when every child exited with status \<open>0\<close>
  and wrote nothing to standard error), and if the count is zero it is at least OK.
\<close>

theorem updates_raise_to_warning:
  "(0 < snd (fst (main env w)) \<longrightarrow> STATE_WARNING \<le> fst (fst (main env w)))
   \<and> (snd (fst (main env w)) = 0 \<longrightarrow> STATE_OK \<le> fst (fst (main env w)))"
  by (simp add: main_def Let_def case_prod_beta max_state_def)

theorem updates_raise_to_warning_witness:
  "0 < snd (fst (main (answering clean_chld two_updates_chld) (init_world 0 1 0)))
   \<and> STATE_WARNING \<le> fst (fst (main (answering clean_chld two_updates_chld) (init_world 0 1 0)))
   \<and> snd (fst (main (answering clean_chld clean_chld) (init_world 0 1 0))) = 0
   \<and> STATE_OK \<le> fst (fst (main (answering clean_chld clean_chld) (init_world 0 1 0)))"
  using updates_raise_to_warning [of "answering clean_chld two_updates_chld" "init_world 0 1 0"]
    updates_raise_to_warning [of "answering clean_chld clean_chld" "init_world 0 1 0"]
  by (simp add: main_init_eq Let_def answering_simps sample_defs marked_def visited_short
      wrap32_def)

section \<open>Counting the marker lines\<close>

text \<open>
  C4 does not hold for every captured standard output: the index and the counter of the
  loop are \<^verbatim>\<open>int\<close>s. On \<open>2 ^ 31 + 5\<close> marker lines the loop ends when the index
  wraps, after \<open>2 ^ 31\<close> lines, and the counter has wrapped to \<open>- 2 ^ 31\<close>.
\<close>

theorem int_counter_wraps:
  "snd (fst (run_upgrade (answering clean_chld flood_chld) (init_world 0 0 0))) = - 2147483648
   \<and> int (length (filter marked (line (chld_out flood_chld)))) = 2147483653
   \<and> marked ''Inst x''"
proof -
  have lines: "line (chld_out flood_chld) = replicate 2147483653 ''Inst x''"
    by (simp add: flood_chld_def)
  have reached: "visited (replicate 2147483653 ''Inst x'') = replicate 2147483648 ''Inst x''"
    by (simp only: visited_def take_replicate) simp
  have marker: "marked ''Inst x''"
    by (simp add: marked_def)
  then have kept: "filter marked (replicate n ''Inst x'') = replicate n ''Inst x''" for n
    by (simp only: filter_replicate if_True)
  have "snd (fst (run_upgrade (answering clean_chld flood_chld) (init_world 0 0 0)))
          = wrap32 (int (length (replicate 2147483648 ''Inst x'')))"
    by (simp only: run_upgrade_eq Let_def fst_conv snd_conv answering_simps lines reached kept)
  then have wrapped:
    "snd (fst (run_upgrade (answering clean_chld flood_chld) (init_world 0 0 0)))
       = - 2147483648"
    by (simp only: length_replicate) (simp add: wrap32_def)
  have all: "int (length (filter marked (line (chld_out flood_chld)))) = 2147483653"
    by (simp only: lines kept length_replicate)
  from wrapped all marker show ?thesis
    by simp
qed

text \<open>
  C4, amended. For every captured standard output of fewer than \<open>2 ^ 31\<close> lines, the count
  that \<^verbatim>\<open>run_upgrade\<close> stores is the number of lines whose first four characters are
  exactly \<open>Inst\<close>: the comparison is case sensitive and anchored at the start of the line,
  and nothing is trimmed. Every other line is passed over. The lines \<open>Inst foo 1.0\<close>,
  \<open>Conf foo\<close>, \<open>Inst bar 2.0\<close> and the empty line give the count \<open>2\<close>.
\<close>

theorem run_upgrade_counts_inst_lines:
  "(length ls < 2147483648 \<longrightarrow>
      fst (inst_loop ls (0, w)) = int (length (filter (\<lambda>l. take 4 l = ''Inst'') ls)))
   \<and> (length (line (chld_out (upgrade_chld env w))) < 2147483648 \<longrightarrow>
        snd (fst (run_upgrade env w))
          = int (length (filter (\<lambda>l. take 4 l = ''Inst'')
                           (line (chld_out (upgrade_chld env w))))))
   \<and> (line (chld_out (upgrade_chld env w))
         = [''Inst foo 1.0'', ''Conf foo'', ''Inst bar 2.0'', []]
       \<longrightarrow> snd (fst (run_upgrade env w)) = 2)
   \<and> fst (inst_loop ['' Inst foo'', ''inst foo'', ''INST foo'', ''Ins'', ''Conf Inst'']
            (0, w)) = 0"
proof -
  have loop: "fst (inst_loop xs (0, w)) = int (length (filter (\<lambda>l. take 4 l = ''Inst'') xs))"
    if "length xs < 2147483648" for xs
    using that wrap32_count [OF that] by (simp add: inst_loop_eq visited_short marked_eq)
  have call: "snd (fst (run_upgrade env w))
      = int (length (filter (\<lambda>l. take 4 l = ''Inst'') (line (chld_out (upgrade_chld env w)))))"
    if "length (line (chld_out (upgrade_chld env w))) < 2147483648"
    using that wrap32_count [OF that] by (simp add: run_upgrade_eq Let_def visited_short marked_eq)
  have example: "snd (fst (run_upgrade env w)) = 2"
    if "line (chld_out (upgrade_chld env w))
          = [''Inst foo 1.0'', ''Conf foo'', ''Inst bar 2.0'', []]"
    using that call by simp
  have others:
    "fst (inst_loop ['' Inst foo'', ''inst foo'', ''INST foo'', ''Ins'', ''Conf Inst''] (0, w))
       = 0"
    using loop [of "['' Inst foo'', ''inst foo'', ''INST foo'', ''Ins'', ''Conf Inst'']"]
    by simp
  from loop call example others show ?thesis
    by blast
qed

theorem run_upgrade_counts_inst_lines_witness:
  "length [''Inst foo 1.0'', ''Conf foo'', ''Inst bar 2.0'', []] < 2147483648
   \<and> fst (inst_loop [''Inst foo 1.0'', ''Conf foo'', ''Inst bar 2.0'', []]
            (0, init_world 0 0 0)) = 2
   \<and> length (line (chld_out (upgrade_chld (answering clean_chld two_updates_chld)
                               (init_world 0 0 0)))) < 2147483648
   \<and> line (chld_out (upgrade_chld (answering clean_chld two_updates_chld) (init_world 0 0 0)))
     = [''Inst foo 1.0'', ''Conf foo'', ''Inst bar 2.0'', []]
   \<and> snd (fst (run_upgrade (answering clean_chld two_updates_chld) (init_world 0 0 0))) = 2"
  using run_upgrade_counts_inst_lines
    [of "[''Inst foo 1.0'', ''Conf foo'', ''Inst bar 2.0'', []]" "init_world 0 0 0"
        "answering clean_chld two_updates_chld"]
  by (simp add: answering_simps two_updates_chld_def)

section \<open>Output on standard error\<close>

text \<open>
  C5. Each of the two functions sets \<^verbatim>\<open>stderr_warning\<close> exactly when the capture of
  the child's standard error has a byte length greater than zero, whatever its content (a
  single newline is enough) and leaves the flag alone otherwise; so from a clear flag the
  flag is set afterwards if and only if the length is greater than zero. Whenever it sets
  the flag, the state it returns is at least WARNING.
\<close>

theorem stderr_output_sets_warning:
  "stderr_warning (snd (run_upgrade env w))
     = (if 0 < buflen (chld_err (upgrade_chld env w)) then 1 else stderr_warning w)
   \<and> (stderr_warning w = 0 \<longrightarrow>
        (stderr_warning (snd (run_upgrade env w)) \<noteq> 0)
          = (0 < buflen (chld_err (upgrade_chld env w))))
   \<and> (0 < buflen (chld_err (upgrade_chld env w)) \<longrightarrow>
        STATE_WARNING \<le> fst (fst (run_upgrade env w)))
   \<and> stderr_warning (snd (run_update env w))
     = (if 0 < buflen (chld_err (refresh_chld env w)) then 1 else stderr_warning w)
   \<and> (stderr_warning w = 0 \<longrightarrow>
        (stderr_warning (snd (run_update env w)) \<noteq> 0)
          = (0 < buflen (chld_err (refresh_chld env w))))
   \<and> (0 < buflen (chld_err (refresh_chld env w)) \<longrightarrow>
        STATE_WARNING \<le> fst (run_update env w))"
  by (simp add: run_upgrade_eq run_update_eq Let_def chld_state_def max_state_def state_defs)

theorem stderr_output_sets_warning_witness:
  "stderr_warning (init_world 0 1 0) = 0
   \<and> 0 < buflen (chld_err (upgrade_chld (answering newline_chld newline_chld) (init_world 0 1 0)))
   \<and> stderr_warning (snd (run_upgrade (answering newline_chld newline_chld) (init_world 0 1 0)))
       \<noteq> 0
   \<and> STATE_WARNING
       \<le> fst (fst (run_upgrade (answering newline_chld newline_chld) (init_world 0 1 0)))
   \<and> 0 < buflen (chld_err (refresh_chld (answering newline_chld newline_chld) (init_world 0 1 0)))
   \<and> stderr_warning (snd (run_update (answering newline_chld newline_chld) (init_world 0 1 0)))
       \<noteq> 0
   \<and> STATE_WARNING \<le> fst (run_update (answering newline_chld newline_chld) (init_world 0 1 0))"
  using stderr_output_sets_warning
    [of "answering newline_chld newline_chld" "init_world 0 1 0"]
  by (simp add: answering_simps newline_chld_def init_world_def)

section \<open>The clean run without refresh\<close>

text \<open>
  The run with refresh disabled in which the upgrade simulation exits \<open>0\<close> and writes
  nothing: the count is \<open>0\<close>, both flags stay clear, and the state returned is what
  \<^verbatim>\<open>max_state\<close> makes of the initial UNKNOWN of \<^verbatim>\<open>result\<close>, the \<open>0\<close> that
  \<^verbatim>\<open>run_upgrade\<close> returns and OK. The plugin's own text decides no more than this;
  the state itself is decided in \<^verbatim>\<open>utils.c\<close>.
\<close>

lemma clean_run_without_refresh:
  "fst (main (answering clean_chld clean_chld) (init_world 0 0 0))
     = (max_state (max_state STATE_UNKNOWN 0) STATE_OK, 0)
   \<and> stderr_warning (snd (main (answering clean_chld clean_chld) (init_world 0 0 0))) = 0
   \<and> exec_warning (snd (main (answering clean_chld clean_chld) (init_world 0 0 0))) = 0"
  by (simp add: main_init_eq Let_def answering_simps sample_defs chld_state_def wrap32_def
      visited_short)

text \<open>
  With the order that the spec gives for \<^verbatim>\<open>max_state\<close>, in which UNKNOWN is the
  greatest state, this value is UNKNOWN, and so is the state of every run without the
  refresh.
\<close>

lemma main_without_refresh: "fst (fst (main env (init_world v 0 d))) = STATE_UNKNOWN"
  by (simp add: main_init_eq Let_def chld_state_def max_state_def state_defs)

section \<open>The sequence of invocations\<close>

text \<open>
  C8. In every run the commands handed to \<^verbatim>\<open>np_runcmd\<close> are, in this order, the
  refresh command if and only if the refresh flag is set, and then one upgrade simulation.
  So the refresh runs at most once, only when selected, and has returned before the upgrade
  simulation starts; no command occurs twice, whatever the exit statuses were. The count of
  updates is the 32-bit count of the marker lines that the loop reaches in the standard
  output of the upgrade simulation (for fewer than \<open>2 ^ 31\<close> lines, the number of its
  marker lines), so two runs whose upgrade simulations wrote the same lines count the same,
  whatever their refreshes did.
\<close>

theorem invocation_sequence:
  "invoked (snd (main env (init_world v u d)))
     = (if u \<noteq> 0 then [APTGET_UPDATE] else [])
         @ [if d = 0 then APTGET_UPGRADE else APTGET_DISTUPGRADE]
   \<and> distinct (invoked (snd (main env (init_world v u d))))
   \<and> count_list (invoked (snd (main env (init_world v u d)))) APTGET_UPDATE
       = (if u \<noteq> 0 then 1 else 0)
   \<and> snd (fst (main env (init_world v u d)))
       = wrap32 (int (length (filter (\<lambda>l. take 4 l = ''Inst'')
                                (visited (line (chld_out (upgrade_of env u d)))))))
   \<and> (length (line (chld_out (upgrade_of env u d))) < 2147483648 \<longrightarrow>
        snd (fst (main env (init_world v u d)))
          = int (length (filter (\<lambda>l. take 4 l = ''Inst'')
                           (line (chld_out (upgrade_of env u d))))))
   \<and> (line (chld_out (upgrade_of env u d)) = line (chld_out (upgrade_of env' u d)) \<longrightarrow>
        snd (fst (main env (init_world v u d))) = snd (fst (main env' (init_world v u d))))"
proof -
  have bounded: "snd (fst (main env (init_world v u d)))
          = int (length (filter (\<lambda>l. take 4 l = ''Inst'')
                           (line (chld_out (upgrade_of env u d)))))"
    if "length (line (chld_out (upgrade_of env u d))) < 2147483648"
    using that wrap32_count [OF that] by (simp add: main_init_eq Let_def visited_short marked_eq)
  have rest: "invoked (snd (main env (init_world v u d)))
     = (if u \<noteq> 0 then [APTGET_UPDATE] else [])
         @ [if d = 0 then APTGET_UPGRADE else APTGET_DISTUPGRADE]
   \<and> distinct (invoked (snd (main env (init_world v u d))))
   \<and> count_list (invoked (snd (main env (init_world v u d)))) APTGET_UPDATE
       = (if u \<noteq> 0 then 1 else 0)
   \<and> snd (fst (main env (init_world v u d)))
       = wrap32 (int (length (filter (\<lambda>l. take 4 l = ''Inst'')
                                (visited (line (chld_out (upgrade_of env u d)))))))
   \<and> (line (chld_out (upgrade_of env u d)) = line (chld_out (upgrade_of env' u d)) \<longrightarrow>
        snd (fst (main env (init_world v u d))) = snd (fst (main env' (init_world v u d))))"
    by (simp add: main_init_eq Let_def marked_eq commands_differ)
  from rest bounded show ?thesis
    by blast
qed

theorem invocation_sequence_witness:
  "line (chld_out (upgrade_of (answering clean_chld two_updates_chld) 1 0))
     = line (chld_out (upgrade_of (answering failed_chld two_updates_chld) 1 0))
   \<and> snd (fst (main (answering clean_chld two_updates_chld) (init_world 0 1 0)))
       = snd (fst (main (answering failed_chld two_updates_chld) (init_world 0 1 0)))
   \<and> length (line (chld_out (upgrade_of (answering failed_chld two_updates_chld) 1 0)))
       < 2147483648
   \<and> snd (fst (main (answering failed_chld two_updates_chld) (init_world 0 1 0))) = 2
   \<and> invoked (snd (main (answering failed_chld two_updates_chld) (init_world 0 1 0)))
       = [APTGET_UPDATE, APTGET_UPGRADE]"
  using invocation_sequence
    [of "answering failed_chld two_updates_chld" 0 1 0 "answering clean_chld two_updates_chld"]
    invocation_sequence
    [of "answering clean_chld two_updates_chld" 0 1 0 "answering failed_chld two_updates_chld"]
  by (simp add: answering_simps two_updates_chld_def)

section \<open>Verbosity\<close>



section \<open>The warning flags\<close>

text \<open>
  C10. Both flags start at \<open>0\<close>. Neither \<^verbatim>\<open>run_update\<close> nor \<^verbatim>\<open>run_upgrade\<close>
  clears a flag: each leaves it as it was or sets it to \<open>1\<close>. At the end of a run
  \<^verbatim>\<open>stderr_warning\<close> is set if and only if one of the calls of \<^verbatim>\<open>np_runcmd\<close> in
  that run captured a non-empty standard error, and \<^verbatim>\<open>exec_warning\<close> is set if and
  only if one of them returned a non-zero status.
\<close>

theorem warning_flags_monotone:
  "stderr_warning (init_world v u d) = 0 \<and> exec_warning (init_world v u d) = 0
   \<and> (stderr_warning (snd (run_update env w)) = stderr_warning w
        \<or> stderr_warning (snd (run_update env w)) = 1)
   \<and> (stderr_warning (snd (run_upgrade env w)) = stderr_warning w
        \<or> stderr_warning (snd (run_upgrade env w)) = 1)
   \<and> (exec_warning (snd (run_update env w)) = exec_warning w
        \<or> exec_warning (snd (run_update env w)) = 1)
   \<and> (exec_warning (snd (run_upgrade env w)) = exec_warning w
        \<or> exec_warning (snd (run_upgrade env w)) = 1)
   \<and> (stderr_warning w \<noteq> 0 \<longrightarrow>
        stderr_warning (snd (run_update env w)) \<noteq> 0
        \<and> stderr_warning (snd (run_upgrade env w)) \<noteq> 0)
   \<and> (exec_warning w \<noteq> 0 \<longrightarrow>
        exec_warning (snd (run_update env w)) \<noteq> 0
        \<and> exec_warning (snd (run_upgrade env w)) \<noteq> 0)
   \<and> (stderr_warning (snd (main env (init_world v u d))) \<noteq> 0)
       = (\<exists>k < length (invoked (snd (main env (init_world v u d)))).
            buflen (chld_err (env k (invoked (snd (main env (init_world v u d))) ! k))) \<noteq> 0)
   \<and> (exec_warning (snd (main env (init_world v u d))) \<noteq> 0)
       = (\<exists>k < length (invoked (snd (main env (init_world v u d)))).
            status (env k (invoked (snd (main env (init_world v u d))) ! k)) \<noteq> 0)"
proof -
  have flags: "stderr_warning (init_world v u d) = 0 \<and> exec_warning (init_world v u d) = 0"
    by (simp add: init_world_def)
  have steps:
    "(stderr_warning (snd (run_update env w)) = stderr_warning w
        \<or> stderr_warning (snd (run_update env w)) = 1)
     \<and> (stderr_warning (snd (run_upgrade env w)) = stderr_warning w
        \<or> stderr_warning (snd (run_upgrade env w)) = 1)
     \<and> (exec_warning (snd (run_update env w)) = exec_warning w
        \<or> exec_warning (snd (run_update env w)) = 1)
     \<and> (exec_warning (snd (run_upgrade env w)) = exec_warning w
        \<or> exec_warning (snd (run_upgrade env w)) = 1)"
    by (simp add: run_update_eq run_upgrade_eq Let_def)
  have kept:
    "(stderr_warning w \<noteq> 0 \<longrightarrow>
        stderr_warning (snd (run_update env w)) \<noteq> 0
        \<and> stderr_warning (snd (run_upgrade env w)) \<noteq> 0)
     \<and> (exec_warning w \<noteq> 0 \<longrightarrow>
        exec_warning (snd (run_update env w)) \<noteq> 0
        \<and> exec_warning (snd (run_upgrade env w)) \<noteq> 0)"
    by (simp add: run_update_eq run_upgrade_eq Let_def)
  have final_stderr:
    "(stderr_warning (snd (main env (init_world v u d))) \<noteq> 0)
       = (\<exists>k < length (invoked (snd (main env (init_world v u d)))).
            buflen (chld_err (env k (invoked (snd (main env (init_world v u d))) ! k))) \<noteq> 0)"
    by (cases "u = 0"; cases "d = 0")
      (simp_all add: main_init_eq Let_def refresh_of_def upgrade_of_def less_Suc_eq
        ex_disj_distrib conj_disj_distribR)
  have final_exec:
    "(exec_warning (snd (main env (init_world v u d))) \<noteq> 0)
       = (\<exists>k < length (invoked (snd (main env (init_world v u d)))).
            status (env k (invoked (snd (main env (init_world v u d))) ! k)) \<noteq> 0)"
    by (cases "u = 0"; cases "d = 0")
      (simp_all add: main_init_eq Let_def refresh_of_def upgrade_of_def less_Suc_eq
        ex_disj_distrib conj_disj_distribR)
  from flags steps kept final_stderr final_exec show ?thesis
    by blast
qed

theorem warning_flags_monotone_witness:
  "stderr_warning ((init_world 0 1 0)\<lparr>stderr_warning := 1, exec_warning := 1\<rparr>) \<noteq> 0
   \<and> stderr_warning (snd (run_update (answering clean_chld clean_chld)
         ((init_world 0 1 0)\<lparr>stderr_warning := 1, exec_warning := 1\<rparr>))) \<noteq> 0
   \<and> stderr_warning (snd (run_upgrade (answering clean_chld clean_chld)
         ((init_world 0 1 0)\<lparr>stderr_warning := 1, exec_warning := 1\<rparr>))) \<noteq> 0
   \<and> exec_warning ((init_world 0 1 0)\<lparr>stderr_warning := 1, exec_warning := 1\<rparr>) \<noteq> 0
   \<and> exec_warning (snd (run_update (answering clean_chld clean_chld)
         ((init_world 0 1 0)\<lparr>stderr_warning := 1, exec_warning := 1\<rparr>))) \<noteq> 0
   \<and> exec_warning (snd (run_upgrade (answering clean_chld clean_chld)
         ((init_world 0 1 0)\<lparr>stderr_warning := 1, exec_warning := 1\<rparr>))) \<noteq> 0
   \<and> 0 < length (invoked (snd (main (answering newline_chld failed_chld) (init_world 0 1 0))))
   \<and> buflen (chld_err (answering newline_chld failed_chld 0
         (invoked (snd (main (answering newline_chld failed_chld) (init_world 0 1 0))) ! 0)))
       \<noteq> 0
   \<and> stderr_warning (snd (main (answering newline_chld failed_chld) (init_world 0 1 0))) \<noteq> 0
   \<and> 1 < length (invoked (snd (main (answering newline_chld failed_chld) (init_world 0 1 0))))
   \<and> status (answering newline_chld failed_chld 1
         (invoked (snd (main (answering newline_chld failed_chld) (init_world 0 1 0))) ! 1))
       \<noteq> 0
   \<and> exec_warning (snd (main (answering newline_chld failed_chld) (init_world 0 1 0))) \<noteq> 0
   \<and> stderr_warning (snd (main (answering clean_chld clean_chld) (init_world 0 1 0))) = 0
   \<and> exec_warning (snd (main (answering clean_chld clean_chld) (init_world 0 1 0))) = 0"
proof -
  let ?E = "answering newline_chld failed_chld"
  let ?C = "answering clean_chld clean_chld"
  let ?w = "(init_world 0 1 0)\<lparr>stderr_warning := 1, exec_warning := 1\<rparr>"
  let ?run = "invoked (snd (main ?E (init_world 0 1 0)))"
  have set: "stderr_warning ?w \<noteq> 0" "exec_warning ?w \<noteq> 0"
    by simp_all
  with warning_flags_monotone [of 0 1 0 ?C ?w]
  have kept: "stderr_warning (snd (run_update ?C ?w)) \<noteq> 0"
    "stderr_warning (snd (run_upgrade ?C ?w)) \<noteq> 0"
    "exec_warning (snd (run_update ?C ?w)) \<noteq> 0"
    "exec_warning (snd (run_upgrade ?C ?w)) \<noteq> 0"
    by blast+
  have run: "?run = [APTGET_UPDATE, APTGET_UPGRADE]"
    by (simp add: main_init_eq Let_def)
  have len: "0 < length ?run" "1 < length ?run"
    by (simp_all add: run)
  have noisy: "buflen (chld_err (?E 0 (?run ! 0))) \<noteq> 0"
    unfolding run by (simp add: answering_def newline_chld_def)
  have failed: "status (?E 1 (?run ! 1)) \<noteq> 0"
    unfolding run by (simp add: answering_def commands_differ failed_chld_def)
  from warning_flags_monotone [of 0 1 0 ?E ?w] len noisy failed
  have final: "stderr_warning (snd (main ?E (init_world 0 1 0))) \<noteq> 0"
    "exec_warning (snd (main ?E (init_world 0 1 0))) \<noteq> 0"
    by blast+
  have clean: "stderr_warning (snd (main ?C (init_world 0 1 0))) = 0"
    "exec_warning (snd (main ?C (init_world 0 1 0))) = 0"
    by (simp_all add: main_init_eq Let_def answering_simps sample_defs)
  from set kept len noisy failed final clean show ?thesis
    by blast
qed

end
